theory Spec2Isabelle
  imports Main "HOL-Library.Log_Nat"
begin

section \<open>Data model\<close>

text \<open>
  The tables the route handlers read and write through the ORM client. Identifiers are
  strings, a \<open>Date\<close> is its number of milliseconds since the epoch. Columns that no
  handler modelled here inspects (names, e-mail, password hash, grade, section, row
  identifiers and creation stamps assigned by the storage layer) are left out.
\<close>

type_synonym ident = string
type_synonym time = int

datatype role = STUDENT | TEACHER | ADMIN

datatype att_status = PRESENT | ABSENT | LATE

record user =
  u_id :: ident
  u_role :: role

record student_profile =
  sp_id :: ident
  sp_userId :: ident

record teacher_profile =
  tp_id :: ident
  tp_userId :: ident

record admin_profile =
  ap_id :: ident
  ap_userId :: ident

record klass =
  c_id :: ident
  c_name :: string
  c_teacherId :: ident

record enrollment =
  e_studentId :: ident
  e_classId :: ident

record attendance =
  a_studentId :: ident
  a_classId :: ident
  a_date :: time
  a_status :: att_status
  a_qrCode :: "string option"

record qr_code =
  q_classId :: ident
  q_code :: string
  q_expiresAt :: time

record store =
  users :: "user list"
  studentProfiles :: "student_profile list"
  teacherProfiles :: "teacher_profile list"
  adminProfiles :: "admin_profile list"
  classes :: "klass list"
  enrollments :: "enrollment list"
  attendances :: "attendance list"
  qrCodes :: "qr_code list"

text \<open>
  What a handler sends back: \<open>res.status(c).json({error, message})\<close> is \<open>Fail c error message\<close>,
  the 400 answer carrying the validator's \<open>details\<close> is \<open>Invalid\<close>, and a 200 answer
  carries its payload.
\<close>

datatype 'a reply = Fail nat string string | Invalid | Success 'a

section \<open>Authorization gate (middleware/auth.js)\<close>

text \<open>
  The result of reading the \<open>Authorization\<close> header and \<open>jwt.verify\<close>: no token, a token
  that does not verify (the call throws), or the decoded \<open>userId\<close>.
\<close>

datatype bearer = NoToken | BadToken | Decoded ident

text \<open>\<open>req.user\<close>: the user row with its three optional profiles included.\<close>

record auth_user =
  au_user :: user
  au_studentProfile :: "student_profile option"
  au_teacherProfile :: "teacher_profile option"
  au_adminProfile :: "admin_profile option"

definition authenticateToken :: "store \<Rightarrow> bearer \<Rightarrow> 'a reply + auth_user" where
  "authenticateToken s b =
     (case b of
        NoToken \<Rightarrow> Inl (Fail 401 ''Access denied'' ''No token provided'')
      | BadToken \<Rightarrow> Inl (Fail 401 ''Access denied'' ''Invalid token'')
      | Decoded uid \<Rightarrow>
          (case find (\<lambda>u. u_id u = uid) (users s) of
             None \<Rightarrow> Inl (Fail 401 ''Access denied'' ''Invalid token'')
           | Some u \<Rightarrow>
               Inr \<lparr> au_user = u,
                     au_studentProfile = find (\<lambda>p. sp_userId p = uid) (studentProfiles s),
                     au_teacherProfile = find (\<lambda>p. tp_userId p = uid) (teacherProfiles s),
                     au_adminProfile = find (\<lambda>p. ap_userId p = uid) (adminProfiles s) \<rparr>))"

text \<open>\<open>authorizeRoles(...roles)\<close>: \<open>None\<close> is \<open>next()\<close>.\<close>

definition authorizeRoles :: "role list \<Rightarrow> auth_user option \<Rightarrow> 'a reply option" where
  "authorizeRoles roles ru =
     (case ru of
        None \<Rightarrow> Some (Fail 401 ''Access denied'' ''Authentication required'')
      | Some u \<Rightarrow>
          if u_role (au_user u) \<notin> set roles
          then Some (Fail 403 ''Access denied'' ''Insufficient permissions'')
          else None)"

section \<open>POST /attendance/scan\<close>

text \<open>
  The handler reads the clock three times: at the expiry check, when it computes
  \<open>today\<close>, and when it stamps the new record.
\<close>

record clock =
  now_expiry :: time
  now_today :: time
  now_create :: time

text \<open>
  \<open>setHours(0, 0, 0, 0)\<close> depends on the host's time zone: a \<open>zone\<close> maps an instant to
  the instant of local midnight that starts its local calendar day. \<open>utc\<close> is the zone of
  a host running on UTC.
\<close>

type_synonym zone = "time \<Rightarrow> time"

definition day_ms :: int where
  "day_ms = 24 * 60 * 60 * 1000"

definition utc :: zone where
  "utc t = t - t mod day_ms"

record scan_request =
  sr_bearer :: bearer
  sr_qrCode :: "string option"
  sr_clock :: clock

text \<open>The 200 payload: date and status of the new record and the class name.\<close>

record scan_ok =
  so_date :: time
  so_status :: att_status
  so_class :: string

text \<open>The four refusals of the handler, by the spec's names.\<close>

definition NotFound :: "'a reply" where
  "NotFound = Fail 400 ''Invalid QR code'' ''The QR code is not valid''"

definition Expired :: "'a reply" where
  "Expired = Fail 400 ''QR code expired'' ''The QR code has expired''"

definition NotEnrolled :: "'a reply" where
  "NotEnrolled = Fail 403 ''Access denied'' ''You are not enrolled in this class''"

definition AlreadyMarked :: "'a reply" where
  "AlreadyMarked = Fail 400 ''Attendance already marked''
     ''You have already marked attendance for this class today''"

text \<open>The answer of the \<open>catch\<close> block.\<close>

definition MarkingFailed :: "'a reply" where
  "MarkingFailed = Fail 500 ''Attendance marking failed'' ''Failed to mark attendance''"

text \<open>
  The \<open>findFirst\<close> filter: a record of this student and class whose date lies in
  \<open>[today, today + 24h)\<close>.
\<close>

definition marked_today :: "ident \<Rightarrow> ident \<Rightarrow> time \<Rightarrow> attendance \<Rightarrow> bool" where
  "marked_today sid cid today a \<longleftrightarrow>
     a_studentId a = sid \<and> a_classId a = cid \<and> today \<le> a_date a \<and> a_date a < today + day_ms"

text \<open>
  Everything the handler does before it writes: validation, the token lookup (with the
  class included), the expiry check, the enrollment lookup and the search for a record of
  today. It returns the refusal, or the row to insert together with the included class.
  Reading \<open>req.user.studentProfile.id\<close> of a user without student profile throws, and the
  \<open>catch\<close> block answers 500.
\<close>

definition scan_checks ::
  "zone \<Rightarrow> store \<Rightarrow> auth_user \<Rightarrow> string option \<Rightarrow> clock \<Rightarrow> scan_ok reply + (attendance \<times> klass option)"
where
  "scan_checks z s u body clk =
     (case body of
        None \<Rightarrow> Inl Invalid
      | Some qr \<Rightarrow>
          if qr = [] then Inl Invalid
          else
            (case find (\<lambda>q. q_code q = qr) (qrCodes s) of
               None \<Rightarrow> Inl NotFound
             | Some q \<Rightarrow>
                 if now_expiry clk > q_expiresAt q then Inl Expired
                 else
                   (case au_studentProfile u of
                      None \<Rightarrow> Inl MarkingFailed
                    | Some sp \<Rightarrow>
                        (case find (\<lambda>e. e_studentId e = sp_id sp \<and> e_classId e = q_classId q)
                                (enrollments s) of
                           None \<Rightarrow> Inl NotEnrolled
                         | Some e \<Rightarrow>
                             (let today = z (now_today clk) in
                              case find (marked_today (sp_id sp) (q_classId q) today)
                                     (attendances s) of
                                Some a \<Rightarrow> Inl AlreadyMarked
                              | None \<Rightarrow>
                                  Inr (\<lparr> a_studentId = sp_id sp,
                                         a_classId = q_classId q,
                                         a_date = now_create clk,
                                         a_status = PRESENT,
                                         a_qrCode = Some qr \<rparr>,
                                       find (\<lambda>c. c_id c = q_classId q) (classes s)))))))"

text \<open>
  Modelled from the spec: what the storage layer does on \<open>prisma.attendance.create\<close>.
  The schema file is not among the sources. The spec's data model says that one record
  per student, class and calendar day is enforced by the check-in protocol, not by a
  storage-level constraint, so the insert accepts every row.
\<close>

definition attendance_create :: "store \<Rightarrow> attendance \<Rightarrow> store" where
  "attendance_create s a = s\<lparr> attendances := attendances s @ [a] \<rparr>"

text \<open>
  The write and the answer. The class was included with the token; reading
  \<open>qrCodeRecord.class.name\<close> of a missing class throws after the insert.
\<close>

definition scan_create :: "store \<Rightarrow> attendance \<times> klass option \<Rightarrow> store \<times> scan_ok reply" where
  "scan_create s d =
     (let s' = attendance_create s (fst d) in
      case snd d of
        None \<Rightarrow> (s', MarkingFailed)
      | Some c \<Rightarrow>
          (s', Success \<lparr> so_date = a_date (fst d), so_status = a_status (fst d),
                         so_class = c_name c \<rparr>))"

definition scan_handler ::
  "zone \<Rightarrow> store \<Rightarrow> auth_user \<Rightarrow> string option \<Rightarrow> clock \<Rightarrow> store \<times> scan_ok reply"
where
  "scan_handler z s u body clk =
     (case scan_checks z s u body clk of
        Inl r \<Rightarrow> (s, r)
      | Inr d \<Rightarrow> scan_create s d)"

text \<open>The route: \<open>authenticateToken\<close>, \<open>authorizeRoles('STUDENT')\<close>, then the handler.\<close>

definition scan :: "zone \<Rightarrow> store \<Rightarrow> scan_request \<Rightarrow> store \<times> scan_ok reply" where
  "scan z s req =
     (case authenticateToken s (sr_bearer req) of
        Inl r \<Rightarrow> (s, r)
      | Inr u \<Rightarrow>
          (case authorizeRoles [STUDENT] (Some u) of
             Some r \<Rightarrow> (s, r)
           | None \<Rightarrow> scan_handler z s u (sr_qrCode req) (sr_clock req)))"

text \<open>
  The part of the route that only reads: both middlewares and the handler's checks. The
  route is this part followed, when it passes, by the write.
\<close>

definition scan_begin ::
  "zone \<Rightarrow> store \<Rightarrow> scan_request \<Rightarrow> scan_ok reply + (attendance \<times> klass option)"
where
  "scan_begin z s req =
     (case authenticateToken s (sr_bearer req) of
        Inl r \<Rightarrow> Inl r
      | Inr u \<Rightarrow>
          (case authorizeRoles [STUDENT] (Some u) of
             Some r \<Rightarrow> Inl r
           | None \<Rightarrow> scan_checks z s u (sr_qrCode req) (sr_clock req)))"

subsection \<open>Requests in flight\<close>

text \<open>
  The handler is an \<open>async\<close> function: it gives up control at every \<open>await\<close>, and the
  handlers of other requests run in between. A request in flight is \<open>Pending\<close> before
  its reads, \<open>Checked\<close> between the \<open>findFirst\<close> that found no record of today and the
  \<open>create\<close>, and \<open>Done\<close> with its answer. One step runs the reads of one request, or
  the write of one request.
\<close>

datatype task =
    Pending scan_request
  | Checked "attendance \<times> klass option"
  | Done "scan_ok reply"

inductive step :: "zone \<Rightarrow> store \<times> task list \<Rightarrow> store \<times> task list \<Rightarrow> bool" for z :: zone where
  refuse:
    "i < length ts \<Longrightarrow> ts ! i = Pending req \<Longrightarrow> scan_begin z s req = Inl r \<Longrightarrow>
     step z (s, ts) (s, ts[i := Done r])"
| pass:
    "i < length ts \<Longrightarrow> ts ! i = Pending req \<Longrightarrow> scan_begin z s req = Inr d \<Longrightarrow>
     step z (s, ts) (s, ts[i := Checked d])"
| create:
    "i < length ts \<Longrightarrow> ts ! i = Checked d \<Longrightarrow> scan_create s d = (s', r) \<Longrightarrow>
     step z (s, ts) (s', ts[i := Done r])"

section \<open>POST /attendance/generate-qr\<close>

text \<open>
  The decimal rendering of an integer \<open>Number\<close> in a template literal.
\<close>

fun digits :: "nat \<Rightarrow> string" where
  "digits n =
     (if n < 10 then [''0123456789'' ! n]
      else digits (n div 10) @ [''0123456789'' ! (n mod 10)])"

declare digits.simps [simp del]

definition toString10 :: "int \<Rightarrow> string" where
  "toString10 i = (if i < 0 then CHR ''-'' # digits (nat (- i)) else digits (nat i))"

text \<open>\<open>String.prototype.substr(start, length)\<close> for non-negative arguments.\<close>

definition substr :: "nat \<Rightarrow> nat \<Rightarrow> string \<Rightarrow> string" where
  "substr start len str = take len (drop start str)"

text \<open>
  The handler reads \<open>Date.now()\<close> twice, for the token string and for the expiry, and
  \<open>Math.random()\<close> once; \<open>gr_random\<close> is \<open>Math.random().toString(36)\<close>, the base-36
  rendering of the pseudo-random number.
\<close>

record qr_request =
  gr_bearer :: bearer
  gr_classId :: "string option"
  gr_now_code :: time
  gr_now_expiry :: time
  gr_random :: string

record qr_ok =
  qo_code :: string
  qo_expiresAt :: time
  qo_image :: string

definition qrCodeData :: "ident \<Rightarrow> time \<Rightarrow> string \<Rightarrow> string" where
  "qrCodeData classId now rnd36 = classId @ ''-'' @ toString10 now @ ''-'' @ substr 2 9 rnd36"

definition GenerationFailed :: "'a reply" where
  "GenerationFailed = Fail 500 ''QR generation failed'' ''Failed to generate QR code''"

text \<open>
  \<open>toDataURL\<close> is the image encoder of the \<open>qrcode\<close> package; \<open>None\<close> is a rejected
  promise. The handler looks tokens up with \<open>findUnique\<close> on \<open>code\<close>, so \<open>code\<close> is a
  unique column and inserting a second row with the same code throws.
\<close>

definition generate_qr_handler ::
  "(string \<Rightarrow> string option) \<Rightarrow> store \<Rightarrow> auth_user \<Rightarrow> qr_request \<Rightarrow> store \<times> qr_ok reply"
where
  "generate_qr_handler toDataURL s u req =
     (case gr_classId req of
        None \<Rightarrow> (s, Invalid)
      | Some classId \<Rightarrow>
          if classId = [] then (s, Invalid)
          else
            (case find (\<lambda>c. c_id c = classId) (classes s) of
               None \<Rightarrow> (s, Fail 404 ''Class not found'' ''The specified class does not exist'')
             | Some classData \<Rightarrow>
                 if u_role (au_user u) = TEACHER \<and>
                    (case find (\<lambda>p. tp_userId p = u_id (au_user u)) (teacherProfiles s) of
                       None \<Rightarrow> True
                     | Some teacherProfile \<Rightarrow> tp_id teacherProfile \<noteq> c_teacherId classData)
                 then (s, Fail 403 ''Access denied''
                            ''You can only generate QR codes for your own classes'')
                 else
                   (let code = qrCodeData classId (gr_now_code req) (gr_random req) in
                    if list_ex (\<lambda>q. q_code q = code) (qrCodes s) then (s, GenerationFailed)
                    else
                      (let row = \<lparr> q_classId = classId, q_code = code,
                                    q_expiresAt = gr_now_expiry req + 15 * 60 * 1000 \<rparr>;
                           s' = s\<lparr> qrCodes := qrCodes s @ [row] \<rparr>
                       in case toDataURL code of
                            None \<Rightarrow> (s', GenerationFailed)
                          | Some img \<Rightarrow>
                              (s', Success \<lparr> qo_code = code, qo_expiresAt = q_expiresAt row,
                                             qo_image = img \<rparr>)))))"

definition generate_qr ::
  "(string \<Rightarrow> string option) \<Rightarrow> store \<Rightarrow> qr_request \<Rightarrow> store \<times> qr_ok reply"
where
  "generate_qr toDataURL s req =
     (case authenticateToken s (gr_bearer req) of
        Inl r \<Rightarrow> (s, r)
      | Inr u \<Rightarrow>
          (case authorizeRoles [TEACHER, ADMIN] (Some u) of
             Some r \<Rightarrow> (s, r)
           | None \<Rightarrow> generate_qr_handler toDataURL s u req))"

section \<open>DELETE /users/:id (routes/users.js)\<close>

text \<open>
  Modelled from the spec: the referential actions of the storage schema on deleting a
  user row. The schema file is not among the sources; the handler only calls
  \<open>prisma.user.delete\<close> under the comment "cascades to profiles". The spec says that
  deleting a User cascades to its role profile and all dependent Enrollments and
  AttendanceRecords: the user row goes, every profile of that user goes, and every
  enrollment and attendance row of a student profile of that user goes.
\<close>

definition user_delete :: "store \<Rightarrow> ident \<Rightarrow> store" where
  "user_delete s uid =
     (let sids = map sp_id (filter (\<lambda>p. sp_userId p = uid) (studentProfiles s)) in
      s\<lparr> users := filter (\<lambda>u. u_id u \<noteq> uid) (users s),
         studentProfiles := filter (\<lambda>p. sp_userId p \<noteq> uid) (studentProfiles s),
         teacherProfiles := filter (\<lambda>p. tp_userId p \<noteq> uid) (teacherProfiles s),
         adminProfiles := filter (\<lambda>p. ap_userId p \<noteq> uid) (adminProfiles s),
         enrollments := filter (\<lambda>e. e_studentId e \<notin> set sids) (enrollments s),
         attendances := filter (\<lambda>a. a_studentId a \<notin> set sids) (attendances s) \<rparr>)"

text \<open>The route: \<open>authenticateToken\<close>, \<open>authorizeRoles('ADMIN')\<close>, then the handler.\<close>

definition delete_user :: "store \<Rightarrow> bearer \<Rightarrow> ident \<Rightarrow> store \<times> unit reply" where
  "delete_user s b uid =
     (case authenticateToken s b of
        Inl r \<Rightarrow> (s, r)
      | Inr u \<Rightarrow>
          (case authorizeRoles [ADMIN] (Some u) of
             Some r \<Rightarrow> (s, r)
           | None \<Rightarrow>
               (case find (\<lambda>x. u_id x = uid) (users s) of
                  None \<Rightarrow> (s, Fail 404 ''User not found'' ''The specified user does not exist'')
                | Some x \<Rightarrow> (user_delete s uid, Success ()))))"

section \<open>GET /attendance/student\<close>

subsection \<open>Numbers\<close>

text \<open>
  A \<open>Number\<close> is a binary64 double. A finite double is modelled by the rational it
  denotes, and every arithmetic operation returns the double nearest to the exact
  result, ties going to the even significand. \<open>expo x\<close> is the binary exponent of a
  positive \<open>x\<close>, the \<open>e\<close> with \<open>2^e \<le> x < 2^(e+1)\<close>; a double has 53 significant bits,
  so the doubles near \<open>x\<close> are the multiples of \<open>2^(e-52)\<close>. Overflow and subnormal
  numbers are not modelled: the handler's numbers are counts of rows, which are far below
  \<open>2^53\<close> and so are doubles themselves, and percentages.
\<close>

definition round_even :: "rat \<Rightarrow> int" where
  "round_even m =
     (let f = \<lfloor>m\<rfloor>; r = m - of_int f
      in if r < 1 / 2 then f else if 1 / 2 < r then f + 1 else if even f then f else f + 1)"

definition expo :: "rat \<Rightarrow> int" where
  "expo x =
     (if 1 \<le> x then int (floorlog 2 (nat \<lfloor>x\<rfloor>)) - 1
      else - int (floorlog 2 (nat (\<lceil>1 / x\<rceil> - 1))))"

definition dbl :: "rat \<Rightarrow> rat" where
  "dbl x =
     (if x = 0 then 0
      else (let u = 2 powi (expo \<bar>x\<bar> - 52)
            in sgn x * of_int (round_even (\<bar>x\<bar> / u)) * u))"




subsection \<open>The handler\<close>








section \<open>A school\<close>

text \<open>
  A small store in the shape of the seed script: an administrator, a teacher, three
  students of whom two are enrolled in the teacher's class, and one token issued for
  that class at 1700000000000 (2023-11-14 22:13:20 UTC), valid for fifteen minutes.
\<close>

definition school :: store where
  "school =
     \<lparr> users = [\<lparr> u_id = ''u1'', u_role = ADMIN \<rparr>, \<lparr> u_id = ''u2'', u_role = TEACHER \<rparr>,
                \<lparr> u_id = ''u3'', u_role = STUDENT \<rparr>, \<lparr> u_id = ''u4'', u_role = STUDENT \<rparr>,
                \<lparr> u_id = ''u5'', u_role = STUDENT \<rparr>],
       studentProfiles = [\<lparr> sp_id = ''s1'', sp_userId = ''u3'' \<rparr>,
                          \<lparr> sp_id = ''s2'', sp_userId = ''u4'' \<rparr>,
                          \<lparr> sp_id = ''s3'', sp_userId = ''u5'' \<rparr>],
       teacherProfiles = [\<lparr> tp_id = ''t1'', tp_userId = ''u2'' \<rparr>],
       adminProfiles = [\<lparr> ap_id = ''a1'', ap_userId = ''u1'' \<rparr>],
       classes = [\<lparr> c_id = ''c1'', c_name = ''Mathematics 10A'', c_teacherId = ''t1'' \<rparr>],
       enrollments = [\<lparr> e_studentId = ''s1'', e_classId = ''c1'' \<rparr>,
                      \<lparr> e_studentId = ''s2'', e_classId = ''c1'' \<rparr>],
       attendances = [],
       qrCodes = [\<lparr> q_classId = ''c1'', q_code = ''c1-1700000000000-k3j9x2m1q'',
                     q_expiresAt = 1700000900000 \<rparr>] \<rparr>"

text \<open>A scan of the school's token by the user \<open>uid\<close>, all three clock readings at \<open>t\<close>.\<close>

definition scan_at :: "ident \<Rightarrow> time \<Rightarrow> scan_request" where
  "scan_at uid t =
     \<lparr> sr_bearer = Decoded uid, sr_qrCode = Some ''c1-1700000000000-k3j9x2m1q'',
       sr_clock = \<lparr> now_expiry = t, now_today = t, now_create = t \<rparr> \<rparr>"

text \<open>The record a scan of the school's token by the student \<open>sid\<close> writes at \<open>t\<close>.\<close>

definition present_at :: "ident \<Rightarrow> time \<Rightarrow> attendance" where
  "present_at sid t =
     \<lparr> a_studentId = sid, a_classId = ''c1'', a_date = t, a_status = PRESENT,
       a_qrCode = Some ''c1-1700000000000-k3j9x2m1q'' \<rparr>"

text \<open>The 200 answer to such a scan.\<close>

definition marked_at :: "time \<Rightarrow> scan_ok reply" where
  "marked_at t = Success \<lparr> so_date = t, so_status = PRESENT, so_class = ''Mathematics 10A'' \<rparr>"

text \<open>
  Two scans of the school's token sent by the same student at almost the same time. The
  clock readings follow the order in which the server runs them: the reads of the first
  request, the reads of the second, then the insert of the first and the insert of the
  second.
\<close>

definition first_scan :: scan_request where
  "first_scan =
     \<lparr> sr_bearer = Decoded ''u3'', sr_qrCode = Some ''c1-1700000000000-k3j9x2m1q'',
       sr_clock = \<lparr> now_expiry = 1700000060000, now_today = 1700000060001,
                    now_create = 1700000060010 \<rparr> \<rparr>"

definition second_scan :: scan_request where
  "second_scan =
     \<lparr> sr_bearer = Decoded ''u3'', sr_qrCode = Some ''c1-1700000000000-k3j9x2m1q'',
       sr_clock = \<lparr> now_expiry = 1700000060004, now_today = 1700000060005,
                    now_create = 1700000060015 \<rparr> \<rparr>"

text \<open>
  The teacher of the class asks for a new token at 1700000960000, and \<open>Math.random()\<close>
  renders as \<open>0.k3j9x2m1qzz\<close> in base 36.
\<close>

definition issue_request :: qr_request where
  "issue_request =
     \<lparr> gr_bearer = Decoded ''u2'', gr_classId = Some ''c1'', gr_now_code = 1700000960000,
       gr_now_expiry = 1700000960001, gr_random = ''0.k3j9x2m1qzz'' \<rparr>"

text \<open>
  The school while an administrator changes the role of a sixth user to \<open>STUDENT\<close>: the
  role route has updated the user row and has not yet created the student profile (it
  does the two in separate calls).
\<close>

definition school_mid_change :: store where
  "school_mid_change = school\<lparr> users := users school @ [\<lparr> u_id = ''u6'', u_role = STUDENT \<rparr>] \<rparr>"




section \<open>Facts about the gate and the school\<close>

lemmas reply_defs = NotFound_def Expired_def NotEnrolled_def AlreadyMarked_def MarkingFailed_def

lemma scan_student:
  "(authenticateToken s (sr_bearer req) :: scan_ok reply + auth_user) = Inr u \<Longrightarrow>
   u_role (au_user u) = STUDENT \<Longrightarrow>
   scan z s req = scan_handler z s u (sr_qrCode req) (sr_clock req)"
  by (simp add: scan_def authorizeRoles_def)

lemma authenticateToken_tables:
  "authenticateToken (s\<lparr> classes := c, enrollments := e, attendances := a, qrCodes := q \<rparr>) b
     = authenticateToken s b"
  "authenticateToken (s\<lparr> attendances := a \<rparr>) b = authenticateToken s b"
  by (simp_all add: authenticateToken_def split: bearer.splits option.splits)

lemma find_none_conv: "(find P xs = None) = (\<not> list_ex P xs)"
  by (auto simp add: find_None_iff list_ex_iff)

lemma school_user:
  "(authenticateToken school (Decoded ''u1'') :: 'a reply + auth_user) =
     Inr \<lparr> au_user = \<lparr> u_id = ''u1'', u_role = ADMIN \<rparr>, au_studentProfile = None,
           au_teacherProfile = None,
           au_adminProfile = Some \<lparr> ap_id = ''a1'', ap_userId = ''u1'' \<rparr> \<rparr>"
  "(authenticateToken school (Decoded ''u2'') :: 'a reply + auth_user) =
     Inr \<lparr> au_user = \<lparr> u_id = ''u2'', u_role = TEACHER \<rparr>, au_studentProfile = None,
           au_teacherProfile = Some \<lparr> tp_id = ''t1'', tp_userId = ''u2'' \<rparr>,
           au_adminProfile = None \<rparr>"
  "(authenticateToken school (Decoded ''u3'') :: 'a reply + auth_user) =
     Inr \<lparr> au_user = \<lparr> u_id = ''u3'', u_role = STUDENT \<rparr>,
           au_studentProfile = Some \<lparr> sp_id = ''s1'', sp_userId = ''u3'' \<rparr>,
           au_teacherProfile = None, au_adminProfile = None \<rparr>"
  "(authenticateToken school (Decoded ''u4'') :: 'a reply + auth_user) =
     Inr \<lparr> au_user = \<lparr> u_id = ''u4'', u_role = STUDENT \<rparr>,
           au_studentProfile = Some \<lparr> sp_id = ''s2'', sp_userId = ''u4'' \<rparr>,
           au_teacherProfile = None, au_adminProfile = None \<rparr>"
  "(authenticateToken school (Decoded ''u5'') :: 'a reply + auth_user) =
     Inr \<lparr> au_user = \<lparr> u_id = ''u5'', u_role = STUDENT \<rparr>,
           au_studentProfile = Some \<lparr> sp_id = ''s3'', sp_userId = ''u5'' \<rparr>,
           au_teacherProfile = None, au_adminProfile = None \<rparr>"
  by (simp_all add: authenticateToken_def school_def)

lemma school_token:
  "find (\<lambda>q. q_code q = ''c1-1700000000000-k3j9x2m1q'') (qrCodes school) =
     Some \<lparr> q_classId = ''c1'', q_code = ''c1-1700000000000-k3j9x2m1q'',
            q_expiresAt = 1700000900000 \<rparr>"
  by (simp add: school_def)

lemma find_some_ex: "list_ex P xs \<Longrightarrow> \<exists>x. find P xs = Some x"
  using find_none_conv [of P xs] by (cases "find P xs") auto

lemma find_some_holds: "find P xs = Some x \<Longrightarrow> P x \<and> x \<in> set xs"
  by (auto simp add: find_Some_iff)

lemma scan_handler_marks:
  assumes "au_studentProfile u = Some sp" and "qr \<noteq> []"
    and "find (\<lambda>q. q_code q = qr) (qrCodes s) = Some tok"
    and "now_expiry clk \<le> q_expiresAt tok"
    and "list_ex (\<lambda>e. e_studentId e = sp_id sp \<and> e_classId e = q_classId tok) (enrollments s)"
    and "\<not> list_ex (marked_today (sp_id sp) (q_classId tok) (z (now_today clk))) (attendances s)"
    and "find (\<lambda>c. c_id c = q_classId tok) (classes s) = Some c"
  shows "scan_handler z s u (Some qr) clk =
           (s\<lparr> attendances := attendances s @
                [\<lparr> a_studentId = sp_id sp, a_classId = q_classId tok, a_date = now_create clk,
                   a_status = PRESENT, a_qrCode = Some qr \<rparr>] \<rparr>,
            Success \<lparr> so_date = now_create clk, so_status = PRESENT, so_class = c_name c \<rparr>)"
proof -
  from assms(5) obtain e where
    "find (\<lambda>e. e_studentId e = sp_id sp \<and> e_classId e = q_classId tok) (enrollments s) = Some e"
    using find_some_ex by blast
  moreover from assms(6) have
    "find (marked_today (sp_id sp) (q_classId tok) (z (now_today clk))) (attendances s) = None"
    by (simp add: find_none_conv)
  ultimately show ?thesis
    using assms(1-4,7) by (simp add: scan_handler_def scan_checks_def scan_create_def attendance_create_def)
qed

lemma scan_handler_success:
  assumes "scan_handler z s u body clk = (s', Success p)"
  shows "\<exists>a. s' = s\<lparr> attendances := attendances s @ [a] \<rparr> \<and>
           a_status a = PRESENT \<and> a_date a = now_create clk \<and> a_qrCode a = body \<and>
           map_option sp_id (au_studentProfile u) = Some (a_studentId a) \<and>
           list_ex (\<lambda>q. Some (q_code q) = body \<and> q_classId q = a_classId a) (qrCodes s)"
proof -
  from assms obtain qr tok sp where
    b: "body = Some qr" and t: "find (\<lambda>q. q_code q = qr) (qrCodes s) = Some tok"
    and p: "au_studentProfile u = Some sp"
    and s': "s' = s\<lparr> attendances := attendances s @
                [\<lparr> a_studentId = sp_id sp, a_classId = q_classId tok, a_date = now_create clk,
                   a_status = PRESENT, a_qrCode = Some qr \<rparr>] \<rparr>"
    by (auto simp add: scan_handler_def scan_checks_def scan_create_def attendance_create_def Let_def reply_defs
        split: option.splits if_splits)
  from t have "q_code tok = qr \<and> tok \<in> set (qrCodes s)"
    by (rule find_some_holds)
  then have "list_ex (\<lambda>q. Some (q_code q) = body \<and> q_classId q = q_classId tok) (qrCodes s)"
    using b by (auto simp add: list_ex_iff)
  with b p s' show ?thesis
    by (intro exI [of _ "\<lparr> a_studentId = sp_id sp, a_classId = q_classId tok,
          a_date = now_create clk, a_status = PRESENT, a_qrCode = Some qr \<rparr>"]) simp
qed

lemma school_tables:
  "users school = [\<lparr> u_id = ''u1'', u_role = ADMIN \<rparr>, \<lparr> u_id = ''u2'', u_role = TEACHER \<rparr>,
                \<lparr> u_id = ''u3'', u_role = STUDENT \<rparr>, \<lparr> u_id = ''u4'', u_role = STUDENT \<rparr>,
                \<lparr> u_id = ''u5'', u_role = STUDENT \<rparr>]"
  "studentProfiles school = [\<lparr> sp_id = ''s1'', sp_userId = ''u3'' \<rparr>,
                          \<lparr> sp_id = ''s2'', sp_userId = ''u4'' \<rparr>,
                          \<lparr> sp_id = ''s3'', sp_userId = ''u5'' \<rparr>]"
  "teacherProfiles school = [\<lparr> tp_id = ''t1'', tp_userId = ''u2'' \<rparr>]"
  "adminProfiles school = [\<lparr> ap_id = ''a1'', ap_userId = ''u1'' \<rparr>]"
  "classes school = [\<lparr> c_id = ''c1'', c_name = ''Mathematics 10A'', c_teacherId = ''t1'' \<rparr>]"
  "enrollments school = [\<lparr> e_studentId = ''s1'', e_classId = ''c1'' \<rparr>,
                      \<lparr> e_studentId = ''s2'', e_classId = ''c1'' \<rparr>]"
  "attendances school = []"
  "qrCodes school = [\<lparr> q_classId = ''c1'', q_code = ''c1-1700000000000-k3j9x2m1q'',
                     q_expiresAt = 1700000900000 \<rparr>]"
  by (simp_all add: school_def)

lemma scan_at_sel:
  "sr_bearer (scan_at uid t) = Decoded uid"
  "sr_qrCode (scan_at uid t) = Some ''c1-1700000000000-k3j9x2m1q''"
  "sr_clock (scan_at uid t) = \<lparr> now_expiry = t, now_today = t, now_create = t \<rparr>"
  by (simp_all add: scan_at_def)

lemmas scan_defs = scan_def authorizeRoles_def scan_handler_def scan_checks_def scan_create_def attendance_create_def

lemmas school_eval = scan_at_sel authenticateToken_tables school_user school_tables
  present_at_def marked_at_def utc_def day_ms_def marked_today_def

lemma school_scan:
  "scan utc school (scan_at ''u3'' 1700000060000) =
     (school\<lparr> attendances := [present_at ''s1'' 1700000060000] \<rparr>, marked_at 1700000060000)"
  by (simp add: scan_defs school_eval)

text \<open>
  The route is its reads followed by its write, and a request handled alone is a run of
  the step relation.
\<close>

lemma scan_split:
  "scan z s req = (case scan_begin z s req of Inl r \<Rightarrow> (s, r) | Inr d \<Rightarrow> scan_create s d)"
  by (simp add: scan_def scan_begin_def scan_handler_def split: sum.splits option.splits)

lemma scan_runs:
  "(step z)\<^sup>*\<^sup>* (s, [Pending req]) (fst (scan z s req), [Done (snd (scan z s req))])"
proof (cases "scan_begin z s req")
  case (Inl r)
  then have "step z (s, [Pending req]) (s, [Pending req][0 := Done r])"
    by (intro step.refuse) simp_all
  with Inl show ?thesis
    by (simp add: scan_split)
next
  case (Inr d)
  then have "step z (s, [Pending req]) (s, [Pending req][0 := Checked d])"
    by (intro step.pass) simp_all
  moreover have "step z (s, [Checked d]) (fst (scan_create s d), [Checked d][0 := Done (snd (scan_create s d))])"
    by (intro step.create) simp_all
  ultimately show ?thesis
    using Inr by (simp add: scan_split)
qed

lemma racers_begin:
  "scan_begin utc school first_scan =
     Inr (present_at ''s1'' 1700000060010,
          Some \<lparr> c_id = ''c1'', c_name = ''Mathematics 10A'', c_teacherId = ''t1'' \<rparr>)"
  "scan_begin utc school second_scan =
     Inr (present_at ''s1'' 1700000060015,
          Some \<lparr> c_id = ''c1'', c_name = ''Mathematics 10A'', c_teacherId = ''t1'' \<rparr>)"
  by (simp_all add: scan_begin_def first_scan_def second_scan_def scan_defs school_eval)

text \<open>Issuing a token, and what deleting a user leaves behind.\<close>

lemma toString10_example: "toString10 1700000960000 = ''1700000960000''"
  by (simp add: toString10_def digits.simps)

lemma generate_qr_handler_success:
  assumes "generate_qr_handler toDataURL s u req = (s', Success p)"
  shows "\<exists>cid suffix. gr_classId req = Some cid \<and>
           suffix = substr 2 9 (gr_random req) \<and> length suffix \<le> 9 \<and>
           qo_code p = cid @ ''-'' @ toString10 (gr_now_code req) @ ''-'' @ suffix \<and>
           qo_expiresAt p = gr_now_expiry req + 900000 \<and>
           s' = s\<lparr> qrCodes := qrCodes s @
                  [\<lparr> q_classId = cid, q_code = qo_code p, q_expiresAt = qo_expiresAt p \<rparr>] \<rparr>"
  using assms
  by (auto simp add: generate_qr_handler_def qrCodeData_def substr_def Let_def GenerationFailed_def
      split: option.splits if_splits)

lemma school_issue:
  "generate_qr Some school issue_request =
     (school\<lparr> qrCodes := qrCodes school @
         [\<lparr> q_classId = ''c1'', q_code = ''c1-1700000960000-k3j9x2m1q'',
            q_expiresAt = 1700001860001 \<rparr>] \<rparr>,
      Success \<lparr> qo_code = ''c1-1700000960000-k3j9x2m1q'', qo_expiresAt = 1700001860001,
                qo_image = ''c1-1700000960000-k3j9x2m1q'' \<rparr>)"
  by (simp add: generate_qr_def generate_qr_handler_def authorizeRoles_def issue_request_def
      school_user school_tables qrCodeData_def substr_def toString10_example Let_def)


lemma issue_sel:
  "gr_bearer issue_request = Decoded ''u2''"
  "gr_classId issue_request = Some ''c1''"
  "gr_now_code issue_request = 1700000960000"
  "gr_now_expiry issue_request = 1700000960001"
  "gr_random issue_request = ''0.k3j9x2m1qzz''"
  by (simp_all add: issue_request_def)

lemma user_delete_clean:
  "\<not> list_ex (\<lambda>x. u_id x = uid) (users (user_delete s uid))"
  "\<not> list_ex (\<lambda>p. sp_userId p = uid) (studentProfiles (user_delete s uid))"
  "\<not> list_ex (\<lambda>p. tp_userId p = uid) (teacherProfiles (user_delete s uid))"
  "\<not> list_ex (\<lambda>p. ap_userId p = uid) (adminProfiles (user_delete s uid))"
  by (simp_all add: user_delete_def Let_def list_ex_iff)

lemma user_delete_dependants:
  assumes "p \<in> set (studentProfiles s)" and "sp_userId p = uid"
  shows "\<not> list_ex (\<lambda>e. e_studentId e = sp_id p) (enrollments (user_delete s uid))"
    and "\<not> list_ex (\<lambda>a. a_studentId a = sp_id p) (attendances (user_delete s uid))"
  using assms by (auto simp add: user_delete_def Let_def list_ex_iff)

section \<open>Facts about doubles\<close>



lemma round_even_eqI:
  assumes "\<bar>m - of_int k\<bar> < 1 / 2"
  shows "round_even m = k"
proof (cases "of_int k \<le> m")
  case True
  with assms have "\<lfloor>m\<rfloor> = k"
    by (intro floor_unique) (auto simp add: abs_less_iff)
  moreover from True assms have "m - of_int k < 1 / 2"
    by (simp add: abs_less_iff)
  ultimately show ?thesis
    by (simp add: round_even_def Let_def)
next
  case False
  with assms have f: "\<lfloor>m\<rfloor> = k - 1"
    by (intro floor_unique) (auto simp add: abs_less_iff)
  from False assms have "1 / 2 < m - of_int (k - 1)"
    by (simp add: abs_less_iff)
  with f show ?thesis
    by (simp add: round_even_def Let_def)
qed

lemma expo_bounds:
  assumes "0 < x"
  shows "2 powi (expo x) \<le> x" and "x < 2 powi (expo x + 1)"
proof -
  have "2 powi (expo x) \<le> x \<and> x < 2 powi (expo x + 1)"
  proof (cases "1 \<le> x")
    case True
    define n where "n = nat \<lfloor>x\<rfloor>"
    define c where "c = floorlog 2 n"
    from True have fl: "1 \<le> \<lfloor>x\<rfloor>" by simp
    then have n: "0 < n" and nx: "(of_nat n :: rat) = of_int \<lfloor>x\<rfloor>"
      by (simp_all add: n_def)
    from floorlog_bounds [OF n, of 2] have b: "2 ^ (c - 1) \<le> n" "n < 2 ^ c"
      by (simp_all add: c_def)
    from b(2) n have c: "0 < c"
      by (cases c) auto
    have e: "expo x = int c - 1"
      using True by (simp add: expo_def c_def n_def)
    have "(2::rat) ^ (c - 1) \<le> of_nat n"
      using b(1) by (metis of_nat_le_iff of_nat_numeral of_nat_power)
    also have "\<dots> \<le> x"
      unfolding nx by linarith
    finally have lo: "(2::rat) ^ (c - 1) \<le> x" .
    have "n + 1 \<le> 2 ^ c"
      using b(2) by simp
    then have "(of_nat (n + 1) :: rat) \<le> 2 ^ c"
      by (metis of_nat_le_iff of_nat_numeral of_nat_power)
    moreover have "x < of_nat (n + 1)"
      using nx by (simp; linarith)
    ultimately have hi: "x < (2::rat) ^ c"
      by linarith
    have "(2::rat) powi (int c - 1) = 2 ^ (c - 1)"
      using c by (simp add: power_int_def nat_diff_distrib')
    moreover have "(2::rat) powi (int c - 1 + 1) = 2 ^ c"
      by simp
    ultimately show ?thesis
      using lo hi e by simp
  next
    case False
    define y where "y = 1 / x"
    define n where "n = nat (\<lceil>y\<rceil> - 1)"
    define c where "c = floorlog 2 n"
    from False assms have y: "1 < y"
      by (simp add: y_def)
    then have "2 \<le> \<lceil>y\<rceil>"
      by linarith
    then have n: "0 < n" and ny: "(of_nat n :: rat) = of_int \<lceil>y\<rceil> - 1"
      by (simp_all add: n_def)
    from floorlog_bounds [OF n, of 2] have b: "2 ^ (c - 1) \<le> n" "n < 2 ^ c"
      by (simp_all add: c_def)
    from b(2) n have c: "0 < c"
      by (cases c) auto
    have e: "expo x = - int c"
      using False by (simp add: expo_def c_def n_def y_def)
    have "n + 1 \<le> 2 ^ c"
      using b(2) by simp
    then have "(of_nat (n + 1) :: rat) \<le> 2 ^ c"
      by (metis of_nat_le_iff of_nat_numeral of_nat_power)
    moreover have "y \<le> of_nat (n + 1)"
      using ny by (simp; linarith)
    ultimately have "y \<le> 2 ^ c"
      by linarith
    then have lo: "1 / 2 ^ c \<le> x"
      using assms by (simp add: y_def field_simps)
    have "(2::rat) ^ (c - 1) \<le> of_nat n"
      using b(1) by (metis of_nat_le_iff of_nat_numeral of_nat_power)
    also have "\<dots> < y"
      unfolding ny by linarith
    finally have "(2::rat) ^ (c - 1) < 1 / x"
      by (simp add: y_def)
    then have hi: "x < 1 / 2 ^ (c - 1)"
      using assms by (simp add: field_simps)
    have "(2::rat) powi (- int c) = 1 / 2 ^ c"
      by (simp add: power_int_minus_divide)
    moreover have "(2::rat) powi (- int c + 1) = 1 / 2 ^ (c - 1)"
    proof -
      have "- int c + 1 = - int (c - 1)"
        using c by simp
      then show ?thesis
        by (simp only: power_int_minus_divide power_int_of_nat)
    qed
    ultimately show ?thesis
      using lo hi e by simp
  qed
  then show "2 powi (expo x) \<le> x" and "x < 2 powi (expo x + 1)"
    by simp_all
qed

lemma expo_eqI:
  assumes "0 < x" and "2 powi e \<le> x" and "x < 2 powi (e + 1)"
  shows "expo x = e"
proof (rule antisym)
  show "expo x \<le> e"
  proof (rule ccontr)
    assume "\<not> expo x \<le> e"
    then have "e + 1 \<le> expo x" by simp
    then have "(2::rat) powi (e + 1) \<le> 2 powi (expo x)"
      by (intro power_int_increasing) simp_all
    with expo_bounds(1) [OF assms(1)] assms(3) show False
      by linarith
  qed
  show "e \<le> expo x"
  proof (rule ccontr)
    assume "\<not> e \<le> expo x"
    then have "expo x + 1 \<le> e" by simp
    then have "(2::rat) powi (expo x + 1) \<le> 2 powi e"
      by (intro power_int_increasing) simp_all
    with expo_bounds(2) [OF assms(1)] assms(2) show False
      by linarith
  qed
qed

lemma dbl_eqI:
  assumes "0 < x" and "2 powi e \<le> x" and "x < 2 powi (e + 1)"
    and "u = 2 powi (e - 52)" and "\<bar>x / u - of_int k\<bar> < 1 / 2"
  shows "dbl x = of_int k * u"
  using assms expo_eqI [OF assms(1-3)] round_even_eqI [OF assms(5)]
  by (simp add: dbl_def Let_def)


text \<open>The percentage of 23 records out of 160, operation by operation.\<close>

lemma powi_vals:
  "(2::rat) powi (- 3) = 1 / 8" "(2::rat) powi (- 2) = 1 / 4"
  "(2::rat) powi (- 55) = 1 / 36028797018963968"
  "(2::rat) powi (- 49) = 1 / 562949953421312"
  "(2::rat) powi (- 42) = 1 / 4398046511104"
  by (simp_all add: power_int_minus_divide)







lemma dbl_1438: "dbl (1438 / 100) = 8095220330198467 / 562949953421312"
  using dbl_eqI [of "1438 / 100" 3 "1 / 562949953421312" 8095220330198467]
  by (simp add: powi_vals)










section \<open>Redeeming a token\<close>

text \<open>
  C3. For a scan by an authenticated student that names a stored token: when the clock
  read at the expiry check is strictly after the token's \<open>expiresAt\<close>, the scan is
  answered \<open>Expired\<close> and the store is left as it was, so no attendance record is
  created; when it is at or before \<open>expiresAt\<close>, the answer is not \<open>Expired\<close>.
\<close>

theorem scan_expired:
  assumes "(authenticateToken s (sr_bearer req) :: scan_ok reply + auth_user) = Inr u"
    and "u_role (au_user u) = STUDENT"
    and "sr_qrCode req = Some qr" and "qr \<noteq> []"
    and "find (\<lambda>q. q_code q = qr) (qrCodes s) = Some tok"
  shows "(q_expiresAt tok < now_expiry (sr_clock req) \<longrightarrow> scan z s req = (s, Expired)) \<and>
         (now_expiry (sr_clock req) \<le> q_expiresAt tok \<longrightarrow> snd (scan z s req) \<noteq> Expired)"
  using assms
  by (auto simp add: scan_student scan_handler_def scan_checks_def scan_create_def attendance_create_def Let_def
      reply_defs split: option.splits)

theorem scan_expired_witness:
  "scan utc school (scan_at ''u3'' 1700000900001) = (school, Expired) \<and>
   snd (scan utc school (scan_at ''u3'' 1700000900000)) \<noteq> Expired"
proof -
  have a: "(authenticateToken school (sr_bearer (scan_at ''u3'' t)) :: scan_ok reply + auth_user)
      = Inr \<lparr> au_user = \<lparr> u_id = ''u3'', u_role = STUDENT \<rparr>,
           au_studentProfile = Some \<lparr> sp_id = ''s1'', sp_userId = ''u3'' \<rparr>,
           au_teacherProfile = None, au_adminProfile = None \<rparr>" for t
    by (simp add: scan_at_def school_user)
  have b: "sr_qrCode (scan_at ''u3'' t) = Some ''c1-1700000000000-k3j9x2m1q''" for t
    by (simp add: scan_at_def)
  show ?thesis
    using scan_expired [OF a _ b _ school_token, of 1700000900001 utc]
      scan_expired [OF a _ b _ school_token, of 1700000900000 utc]
    by (simp add: scan_at_def)
qed

text \<open>
  C4, as stated, fails. A user whose role is \<open>STUDENT\<close> and who has no student profile
  has no enrollment in any class. The scan of a stored, unexpired token by such a user
  passes the role check, throws at \<open>req.user.studentProfile.id\<close> and is answered 500 by
  the \<open>catch\<close> block, not \<open>NotEnrolled\<close>.
\<close>

theorem scan_not_enrolled_counterexample:
  "(authenticateToken school_mid_change (Decoded ''u6'') :: scan_ok reply + auth_user) =
     Inr \<lparr> au_user = \<lparr> u_id = ''u6'', u_role = STUDENT \<rparr>, au_studentProfile = None,
           au_teacherProfile = None, au_adminProfile = None \<rparr> \<and>
   map e_studentId (enrollments school_mid_change) = [''s1'', ''s2''] \<and>
   scan utc school_mid_change (scan_at ''u6'' 1700000060000) =
     (school_mid_change, MarkingFailed) \<and>
   (MarkingFailed :: scan_ok reply) \<noteq> NotEnrolled"
proof -
  have a: "(authenticateToken school_mid_change (Decoded ''u6'') :: scan_ok reply + auth_user) =
     Inr \<lparr> au_user = \<lparr> u_id = ''u6'', u_role = STUDENT \<rparr>, au_studentProfile = None,
           au_teacherProfile = None, au_adminProfile = None \<rparr>"
    by (simp add: authenticateToken_def school_mid_change_def school_tables)
  have t: "qrCodes school_mid_change = qrCodes school"
    "enrollments school_mid_change = enrollments school"
    by (simp_all add: school_mid_change_def)
  have "scan utc school_mid_change (scan_at ''u6'' 1700000060000) =
     (school_mid_change, MarkingFailed)"
    by (simp add: scan_def authorizeRoles_def scan_handler_def scan_checks_def a scan_at_sel
        t school_tables)
  with a show ?thesis
    by (simp add: t school_tables reply_defs)
qed

text \<open>
  C4, amended. For a scan by an authenticated student who has a student profile, naming a
  stored token which has not expired: when the student has no enrollment in the token's
  class, the scan is answered \<open>NotEnrolled\<close> and the store is left as it was, so no
  attendance record is created.
\<close>

theorem scan_not_enrolled:
  assumes "(authenticateToken s (sr_bearer req) :: scan_ok reply + auth_user) = Inr u"
    and "u_role (au_user u) = STUDENT"
    and "au_studentProfile u = Some sp"
    and "sr_qrCode req = Some qr" and "qr \<noteq> []"
    and "find (\<lambda>q. q_code q = qr) (qrCodes s) = Some tok"
    and "now_expiry (sr_clock req) \<le> q_expiresAt tok"
    and "\<not> list_ex (\<lambda>e. e_studentId e = sp_id sp \<and> e_classId e = q_classId tok) (enrollments s)"
  shows "scan z s req = (s, NotEnrolled)"
  using assms
  by (simp add: scan_student scan_handler_def scan_checks_def find_none_conv [symmetric])

theorem scan_not_enrolled_witness:
  "scan utc school (scan_at ''u5'' 1700000060000) = (school, NotEnrolled)"
proof -
  have a: "(authenticateToken school (sr_bearer (scan_at ''u5'' 1700000060000))
              :: scan_ok reply + auth_user)
      = Inr \<lparr> au_user = \<lparr> u_id = ''u5'', u_role = STUDENT \<rparr>,
           au_studentProfile = Some \<lparr> sp_id = ''s3'', sp_userId = ''u5'' \<rparr>,
           au_teacherProfile = None, au_adminProfile = None \<rparr>"
    by (simp add: scan_at_def school_user)
  have b: "sr_qrCode (scan_at ''u5'' 1700000060000) = Some ''c1-1700000000000-k3j9x2m1q''"
    by (simp add: scan_at_def)
  show ?thesis
    using scan_not_enrolled [OF a _ _ b _ school_token,
        of "\<lparr> sp_id = ''s3'', sp_userId = ''u5'' \<rparr>" utc]
    by (simp add: scan_at_def school_def)
qed





text \<open>
  C5. A scan answered 200 appends exactly one attendance record and changes nothing else
  in the store: the record has status \<open>PRESENT\<close>, its date is the clock read at the
  insert, it carries the scanned token string, its student is the requester's student
  profile and its class is the class of a stored token with that string.
\<close>

theorem scan_success_creates_one:
  assumes "scan z s req = (s', Success p)"
  shows "\<exists>a u. s' = s\<lparr> attendances := attendances s @ [a] \<rparr> \<and>
           a_status a = PRESENT \<and> a_date a = now_create (sr_clock req) \<and>
           a_qrCode a = sr_qrCode req \<and>
           (authenticateToken s (sr_bearer req) :: scan_ok reply + auth_user) = Inr u \<and>
           map_option sp_id (au_studentProfile u) = Some (a_studentId a) \<and>
           list_ex (\<lambda>q. Some (q_code q) = sr_qrCode req \<and> q_classId q = a_classId a) (qrCodes s)"
proof (cases "authenticateToken s (sr_bearer req) :: scan_ok reply + auth_user")
  case (Inl r)
  with assms show ?thesis
    by (auto simp add: scan_def authenticateToken_def split: bearer.splits option.splits)
next
  case (Inr u)
  with assms have "scan_handler z s u (sr_qrCode req) (sr_clock req) = (s', Success p)"
    by (auto simp add: scan_def authorizeRoles_def split: if_splits)
  from scan_handler_success [OF this] Inr show ?thesis
    by blast
qed


theorem scan_success_creates_one_witness:
  "\<exists>a u. fst (scan utc school (scan_at ''u3'' 1700000060000)) =
            school\<lparr> attendances := attendances school @ [a] \<rparr> \<and>
         a_status a = PRESENT \<and> a_date a = 1700000060000 \<and>
         a_qrCode a = Some ''c1-1700000000000-k3j9x2m1q'' \<and>
         (authenticateToken school (Decoded ''u3'') :: scan_ok reply + auth_user) = Inr u \<and>
         map_option sp_id (au_studentProfile u) = Some (a_studentId a) \<and>
         list_ex (\<lambda>q. Some (q_code q) = Some ''c1-1700000000000-k3j9x2m1q'' \<and>
                      q_classId q = a_classId a) (qrCodes school)"
  using scan_success_creates_one [OF school_scan [unfolded marked_at_def]]
  by (simp only: scan_at_sel school_scan fst_conv clock.simps)

text \<open>
  C6. Two students with different student profiles, both enrolled in the class of a stored
  token, neither with a record of that class today, scan the same token one after the
  other while it has not expired: both scans are answered 200, each appends its own
  record, and the token table is as before, so the token is not used up.
\<close>

theorem scan_two_students:
  assumes "(authenticateToken s (sr_bearer ra) :: scan_ok reply + auth_user) = Inr ua"
    and "u_role (au_user ua) = STUDENT" and "au_studentProfile ua = Some spa"
    and "(authenticateToken s (sr_bearer rb) :: scan_ok reply + auth_user) = Inr ub"
    and "u_role (au_user ub) = STUDENT" and "au_studentProfile ub = Some spb"
    and "sp_id spa \<noteq> sp_id spb"
    and "sr_qrCode ra = Some qr" and "sr_qrCode rb = Some qr" and "qr \<noteq> []"
    and "find (\<lambda>q. q_code q = qr) (qrCodes s) = Some tok"
    and "find (\<lambda>c. c_id c = q_classId tok) (classes s) = Some c"
    and "now_expiry (sr_clock ra) \<le> q_expiresAt tok"
    and "now_expiry (sr_clock rb) \<le> q_expiresAt tok"
    and "list_ex (\<lambda>e. e_studentId e = sp_id spa \<and> e_classId e = q_classId tok) (enrollments s)"
    and "list_ex (\<lambda>e. e_studentId e = sp_id spb \<and> e_classId e = q_classId tok) (enrollments s)"
    and "\<not> list_ex (marked_today (sp_id spa) (q_classId tok) (z (now_today (sr_clock ra))))
              (attendances s)"
    and "\<not> list_ex (marked_today (sp_id spb) (q_classId tok) (z (now_today (sr_clock rb))))
              (attendances s)"
  shows "\<exists>s1 s2 pa pb.
           scan z s ra = (s1, Success pa) \<and> scan z s1 rb = (s2, Success pb) \<and>
           qrCodes s2 = qrCodes s \<and>
           attendances s2 = attendances s @
             [\<lparr> a_studentId = sp_id spa, a_classId = q_classId tok,
                a_date = now_create (sr_clock ra), a_status = PRESENT, a_qrCode = Some qr \<rparr>,
              \<lparr> a_studentId = sp_id spb, a_classId = q_classId tok,
                a_date = now_create (sr_clock rb), a_status = PRESENT, a_qrCode = Some qr \<rparr>]"
proof -
  let ?rowa = "\<lparr> a_studentId = sp_id spa, a_classId = q_classId tok,
                a_date = now_create (sr_clock ra), a_status = PRESENT, a_qrCode = Some qr \<rparr>"
  let ?s1 = "s\<lparr> attendances := attendances s @ [?rowa] \<rparr>"
  have first: "scan z s ra = (?s1, Success \<lparr> so_date = now_create (sr_clock ra),
      so_status = PRESENT, so_class = c_name c \<rparr>)"
    using assms by (simp add: scan_student scan_handler_marks)
  have auth: "(authenticateToken ?s1 (sr_bearer rb) :: scan_ok reply + auth_user) = Inr ub"
    using assms(4) by (simp add: authenticateToken_tables)
  have unmarked: "\<not> list_ex (marked_today (sp_id spb) (q_classId tok)
      (z (now_today (sr_clock rb)))) (attendances ?s1)"
    using assms(7,18) by (simp add: marked_today_def)
  have second: "scan z ?s1 rb =
      (?s1\<lparr> attendances := attendances ?s1 @
          [\<lparr> a_studentId = sp_id spb, a_classId = q_classId tok,
             a_date = now_create (sr_clock rb), a_status = PRESENT, a_qrCode = Some qr \<rparr>] \<rparr>,
       Success \<lparr> so_date = now_create (sr_clock rb), so_status = PRESENT,
                 so_class = c_name c \<rparr>)"
    unfolding scan_student [OF auth assms(5)] assms(9)
    using scan_handler_marks [where z = z and s = ?s1 and u = ub and sp = spb and qr = qr
        and tok = tok and c = c and clk = "sr_clock rb"] unmarked assms
    by simp
  from first second show ?thesis
    by (intro exI conjI) (assumption, assumption, simp_all)
qed

theorem scan_two_students_witness:
  "\<exists>s1 s2 pa pb.
     scan utc school (scan_at ''u3'' 1700000060000) = (s1, Success pa) \<and>
     scan utc s1 (scan_at ''u4'' 1700000120000) = (s2, Success pb) \<and>
     qrCodes s2 = qrCodes school \<and>
     attendances s2 = [present_at ''s1'' 1700000060000, present_at ''s2'' 1700000120000]"
proof -
  let ?tok = "\<lparr> q_classId = ''c1'', q_code = ''c1-1700000000000-k3j9x2m1q'',
                q_expiresAt = 1700000900000 \<rparr>"
  have a: "(authenticateToken school (sr_bearer (scan_at ''u3'' 1700000060000))
              :: scan_ok reply + auth_user)
      = Inr \<lparr> au_user = \<lparr> u_id = ''u3'', u_role = STUDENT \<rparr>,
           au_studentProfile = Some \<lparr> sp_id = ''s1'', sp_userId = ''u3'' \<rparr>,
           au_teacherProfile = None, au_adminProfile = None \<rparr>"
    by (simp add: school_eval)
  have b: "(authenticateToken school (sr_bearer (scan_at ''u4'' 1700000120000))
              :: scan_ok reply + auth_user)
      = Inr \<lparr> au_user = \<lparr> u_id = ''u4'', u_role = STUDENT \<rparr>,
           au_studentProfile = Some \<lparr> sp_id = ''s2'', sp_userId = ''u4'' \<rparr>,
           au_teacherProfile = None, au_adminProfile = None \<rparr>"
    by (simp add: school_eval)
  have q: "sr_qrCode (scan_at uid t) = Some ''c1-1700000000000-k3j9x2m1q''" for uid t
    by (simp add: scan_at_sel)
  have c: "find (\<lambda>c. c_id c = q_classId ?tok) (classes school) =
      Some \<lparr> c_id = ''c1'', c_name = ''Mathematics 10A'', c_teacherId = ''t1'' \<rparr>"
    by (simp add: school_tables)
  show ?thesis
    using scan_two_students [OF a _ _ b _ _ _ q q _ school_token c,
        of "\<lparr> sp_id = ''s1'', sp_userId = ''u3'' \<rparr>" "\<lparr> sp_id = ''s2'', sp_userId = ''u4'' \<rparr>" utc]
    by (simp add: school_eval)
qed

text \<open>
  C9. A scan by an authenticated user whose role is \<open>TEACHER\<close> or \<open>ADMIN\<close> is
  answered 403 by the role check and leaves the store as it was; the answer is the same
  whatever the class, enrollment, attendance and token tables hold, so it is given before
  any of them is read.
\<close>

theorem scan_students_only:
  assumes "(authenticateToken s (sr_bearer req) :: scan_ok reply + auth_user) = Inr u"
    and "u_role (au_user u) = TEACHER \<or> u_role (au_user u) = ADMIN"
  shows "scan z s req = (s, Fail 403 ''Access denied'' ''Insufficient permissions'') \<and>
         scan z (s\<lparr> classes := c, enrollments := e, attendances := a, qrCodes := q \<rparr>) req =
           (s\<lparr> classes := c, enrollments := e, attendances := a, qrCodes := q \<rparr>,
            Fail 403 ''Access denied'' ''Insufficient permissions'')"
  using assms by (auto simp add: scan_def authorizeRoles_def authenticateToken_tables)

theorem scan_students_only_witness:
  "scan utc school (scan_at ''u2'' 1700000060000) =
     (school, Fail 403 ''Access denied'' ''Insufficient permissions'') \<and>
   scan utc school (scan_at ''u1'' 1700000060000) =
     (school, Fail 403 ''Access denied'' ''Insufficient permissions'')"
proof -
  have t: "(authenticateToken school (sr_bearer (scan_at ''u2'' 1700000060000))
              :: scan_ok reply + auth_user)
      = Inr \<lparr> au_user = \<lparr> u_id = ''u2'', u_role = TEACHER \<rparr>, au_studentProfile = None,
           au_teacherProfile = Some \<lparr> tp_id = ''t1'', tp_userId = ''u2'' \<rparr>,
           au_adminProfile = None \<rparr>"
    by (simp add: scan_at_def school_user)
  have a: "(authenticateToken school (sr_bearer (scan_at ''u1'' 1700000060000))
              :: scan_ok reply + auth_user)
      = Inr \<lparr> au_user = \<lparr> u_id = ''u1'', u_role = ADMIN \<rparr>, au_studentProfile = None,
           au_teacherProfile = None,
           au_adminProfile = Some \<lparr> ap_id = ''a1'', ap_userId = ''u1'' \<rparr> \<rparr>"
    by (simp add: scan_at_def school_user)
  show ?thesis
    using scan_students_only [OF t, of utc] scan_students_only [OF a, of utc] by simp
qed



section \<open>Two scans in flight\<close>

text \<open>
  C1. The claim asks that of several simultaneous scans by one student for one class and
  day exactly one creates a record. The handler looks for a record of today and inserts
  in two separate awaited calls, so this run exists: both requests of the same student
  pass their reads before either insert, both are answered 200, and the store ends with
  two records of that student and class in the same day.
\<close>

theorem scan_race:
  "(step utc)\<^sup>*\<^sup>*
     (school, [Pending first_scan, Pending second_scan])
     (school\<lparr> attendances :=
         [present_at ''s1'' 1700000060010, present_at ''s1'' 1700000060015] \<rparr>,
      [Done (marked_at 1700000060010), Done (marked_at 1700000060015)]) \<and>
   list_all (marked_today ''s1'' ''c1'' (utc 1700000060001))
     [present_at ''s1'' 1700000060010, present_at ''s1'' 1700000060015]"
proof -
  let ?c = "Some \<lparr> c_id = ''c1'', c_name = ''Mathematics 10A'', c_teacherId = ''t1'' \<rparr>"
  let ?a = "(present_at ''s1'' 1700000060010, ?c)"
  let ?b = "(present_at ''s1'' 1700000060015, ?c)"
  let ?s1 = "school\<lparr> attendances := [present_at ''s1'' 1700000060010] \<rparr>"
  let ?s2 = "school\<lparr> attendances :=
         [present_at ''s1'' 1700000060010, present_at ''s1'' 1700000060015] \<rparr>"
  have "step utc (school, [Pending first_scan, Pending second_scan])
          (school, [Checked ?a, Pending second_scan])"
    using step.pass [of 0 "[Pending first_scan, Pending second_scan]" first_scan utc school ?a]
    by (simp add: racers_begin)
  moreover have "step utc (school, [Checked ?a, Pending second_scan])
          (school, [Checked ?a, Checked ?b])"
    using step.pass [of 1 "[Checked ?a, Pending second_scan]" second_scan utc school ?b]
    by (simp add: racers_begin)
  moreover have "step utc (school, [Checked ?a, Checked ?b])
          (?s1, [Done (marked_at 1700000060010), Checked ?b])"
    using step.create [of 0 "[Checked ?a, Checked ?b]" ?a school ?s1 "marked_at 1700000060010" utc]
    by (simp add: scan_create_def attendance_create_def school_tables present_at_def marked_at_def)
  moreover have "step utc (?s1, [Done (marked_at 1700000060010), Checked ?b])
          (?s2, [Done (marked_at 1700000060010), Done (marked_at 1700000060015)])"
    using step.create [of 1 "[Done (marked_at 1700000060010), Checked ?b]" ?b ?s1 ?s2
        "marked_at 1700000060015" utc]
    by (simp add: scan_create_def attendance_create_def school_tables present_at_def marked_at_def)
  ultimately have "(step utc)\<^sup>*\<^sup>*
     (school, [Pending first_scan, Pending second_scan])
     (?s2, [Done (marked_at 1700000060010), Done (marked_at 1700000060015)])"
    by (meson rtranclp.rtrancl_into_rtrancl rtranclp.rtrancl_refl)
  moreover have "list_all (marked_today ''s1'' ''c1'' (utc 1700000060001))
     [present_at ''s1'' 1700000060010, present_at ''s1'' 1700000060015]"
    by (simp add: school_eval)
  ultimately show ?thesis ..
qed


section \<open>Issuing a token\<close>

text \<open>
  C7, as stated, fails. The token the teacher is issued is the class id, the decimal
  timestamp of the request and nine characters cut from the base-36 rendering of
  \<open>Math.random()\<close>, joined by hyphens: a timestamp concatenation, with no
  cryptographically strong source in it.
\<close>

theorem generate_qr_timestamp_counterexample:
  "snd (generate_qr Some school issue_request) =
     Success \<lparr> qo_code = ''c1'' @ ''-'' @ ''1700000960000'' @ ''-'' @ ''k3j9x2m1q'',
               qo_expiresAt = 1700001860001,
               qo_image = ''c1-1700000960000-k3j9x2m1q'' \<rparr> \<and>
   toString10 (gr_now_code issue_request) = ''1700000960000'' \<and>
   substr 2 9 (gr_random issue_request) = ''k3j9x2m1q''"
  by (simp add: school_issue issue_sel toString10_example substr_def)

text \<open>
  C7, amended. Every token issued by generate-qr is the class id, a hyphen, the decimal
  millisecond timestamp read when the token is built, a hyphen, and at most nine
  characters taken from position 2 of the base-36 rendering of \<open>Math.random()\<close>; it is
  stored with an expiry fifteen minutes after the second clock reading, as the one new
  row of the token table. Given the class and the time of issue, only that suffix is not
  determined.
\<close>

theorem generate_qr_code_shape:
  assumes "generate_qr toDataURL s req = (s', Success p)"
  shows "\<exists>cid suffix. gr_classId req = Some cid \<and>
           suffix = substr 2 9 (gr_random req) \<and> length suffix \<le> 9 \<and>
           qo_code p = cid @ ''-'' @ toString10 (gr_now_code req) @ ''-'' @ suffix \<and>
           qo_expiresAt p = gr_now_expiry req + 900000 \<and>
           s' = s\<lparr> qrCodes := qrCodes s @
                  [\<lparr> q_classId = cid, q_code = qo_code p, q_expiresAt = qo_expiresAt p \<rparr>] \<rparr>"
proof (cases "authenticateToken s (gr_bearer req) :: qr_ok reply + auth_user")
  case (Inl r)
  with assms show ?thesis
    by (auto simp add: generate_qr_def authenticateToken_def split: bearer.splits option.splits)
next
  case (Inr u)
  with assms have "generate_qr_handler toDataURL s u req = (s', Success p)"
    by (auto simp add: generate_qr_def authorizeRoles_def split: if_splits)
  then show ?thesis
    by (rule generate_qr_handler_success)
qed

theorem generate_qr_code_shape_witness:
  "\<exists>cid suffix. gr_classId issue_request = Some cid \<and>
     suffix = substr 2 9 ''0.k3j9x2m1qzz'' \<and> length suffix \<le> 9 \<and>
     ''c1-1700000960000-k3j9x2m1q'' = cid @ ''-'' @ toString10 1700000960000 @ ''-'' @ suffix \<and>
     fst (generate_qr Some school issue_request) =
       school\<lparr> qrCodes := qrCodes school @
         [\<lparr> q_classId = cid, q_code = ''c1-1700000960000-k3j9x2m1q'',
            q_expiresAt = 1700001860001 \<rparr>] \<rparr>"
  using generate_qr_code_shape [OF school_issue]
  by (simp add: issue_sel school_issue)

section \<open>Deleting a user\<close>

text \<open>
  C8. When an administrator deletes an existing user, the answer is 200 and afterwards the
  store holds no user row with that id, no student, teacher or admin profile of that user,
  and no enrollment and no attendance record of any student profile that user had.
\<close>

theorem delete_user_cascades:
  assumes "(authenticateToken s b :: unit reply + auth_user) = Inr adm"
    and "u_role (au_user adm) = ADMIN"
    and "list_ex (\<lambda>x. u_id x = uid) (users s)"
  shows "snd (delete_user s b uid) = Success () \<and>
         \<not> list_ex (\<lambda>x. u_id x = uid) (users (fst (delete_user s b uid))) \<and>
         \<not> list_ex (\<lambda>p. sp_userId p = uid) (studentProfiles (fst (delete_user s b uid))) \<and>
         \<not> list_ex (\<lambda>p. tp_userId p = uid) (teacherProfiles (fst (delete_user s b uid))) \<and>
         \<not> list_ex (\<lambda>p. ap_userId p = uid) (adminProfiles (fst (delete_user s b uid))) \<and>
         (\<forall>p \<in> set (studentProfiles s). sp_userId p = uid \<longrightarrow>
            \<not> list_ex (\<lambda>e. e_studentId e = sp_id p) (enrollments (fst (delete_user s b uid))) \<and>
            \<not> list_ex (\<lambda>a. a_studentId a = sp_id p) (attendances (fst (delete_user s b uid))))"
proof -
  from assms(3) obtain x where "find (\<lambda>x. u_id x = uid) (users s) = Some x"
    using find_some_ex by blast
  with assms(1,2) have "delete_user s b uid = (user_delete s uid, Success ())"
    by (simp add: delete_user_def authorizeRoles_def)
  then show ?thesis
    using user_delete_clean [of uid s] user_delete_dependants [of _ s uid] by simp
qed

theorem delete_user_cascades_witness:
  "delete_user (school\<lparr> attendances :=
       [present_at ''s1'' 1700000060000, present_at ''s2'' 1700000120000] \<rparr>)
     (Decoded ''u1'') ''u3'' =
   (\<lparr> users = [\<lparr> u_id = ''u1'', u_role = ADMIN \<rparr>, \<lparr> u_id = ''u2'', u_role = TEACHER \<rparr>,
                \<lparr> u_id = ''u4'', u_role = STUDENT \<rparr>, \<lparr> u_id = ''u5'', u_role = STUDENT \<rparr>],
       studentProfiles = [\<lparr> sp_id = ''s2'', sp_userId = ''u4'' \<rparr>,
                          \<lparr> sp_id = ''s3'', sp_userId = ''u5'' \<rparr>],
       teacherProfiles = [\<lparr> tp_id = ''t1'', tp_userId = ''u2'' \<rparr>],
       adminProfiles = [\<lparr> ap_id = ''a1'', ap_userId = ''u1'' \<rparr>],
       classes = [\<lparr> c_id = ''c1'', c_name = ''Mathematics 10A'', c_teacherId = ''t1'' \<rparr>],
       enrollments = [\<lparr> e_studentId = ''s2'', e_classId = ''c1'' \<rparr>],
       attendances = [present_at ''s2'' 1700000120000],
       qrCodes = [\<lparr> q_classId = ''c1'', q_code = ''c1-1700000000000-k3j9x2m1q'',
                     q_expiresAt = 1700000900000 \<rparr>] \<rparr>,
    Success ())"
proof -
  let ?s = "school\<lparr> attendances :=
       [present_at ''s1'' 1700000060000, present_at ''s2'' 1700000120000] \<rparr>"
  have a: "(authenticateToken ?s (Decoded ''u1'') :: unit reply + auth_user) =
     Inr \<lparr> au_user = \<lparr> u_id = ''u1'', u_role = ADMIN \<rparr>, au_studentProfile = None,
           au_teacherProfile = None,
           au_adminProfile = Some \<lparr> ap_id = ''a1'', ap_userId = ''u1'' \<rparr> \<rparr>"
    by (simp add: school_eval)
  have "snd (delete_user ?s (Decoded ''u1'') ''u3'') = Success ()"
    using delete_user_cascades [OF a, of "''u3''"] by (simp add: school_tables)
  moreover have "fst (delete_user ?s (Decoded ''u1'') ''u3'') = fst (user_delete ?s ''u3'', ())"
    by (simp add: delete_user_def authorizeRoles_def a school_tables)
  moreover have "user_delete ?s ''u3'' =
    \<lparr> users = [\<lparr> u_id = ''u1'', u_role = ADMIN \<rparr>, \<lparr> u_id = ''u2'', u_role = TEACHER \<rparr>,
                \<lparr> u_id = ''u4'', u_role = STUDENT \<rparr>, \<lparr> u_id = ''u5'', u_role = STUDENT \<rparr>],
       studentProfiles = [\<lparr> sp_id = ''s2'', sp_userId = ''u4'' \<rparr>,
                          \<lparr> sp_id = ''s3'', sp_userId = ''u5'' \<rparr>],
       teacherProfiles = [\<lparr> tp_id = ''t1'', tp_userId = ''u2'' \<rparr>],
       adminProfiles = [\<lparr> ap_id = ''a1'', ap_userId = ''u1'' \<rparr>],
       classes = [\<lparr> c_id = ''c1'', c_name = ''Mathematics 10A'', c_teacherId = ''t1'' \<rparr>],
       enrollments = [\<lparr> e_studentId = ''s2'', e_classId = ''c1'' \<rparr>],
       attendances = [present_at ''s2'' 1700000120000],
       qrCodes = [\<lparr> q_classId = ''c1'', q_code = ''c1-1700000000000-k3j9x2m1q'',
                     q_expiresAt = 1700000900000 \<rparr>] \<rparr>"
    by (simp add: user_delete_def school_def present_at_def)
  ultimately show ?thesis
    by (simp add: prod_eq_iff)
qed

section \<open>The student's summary\<close>




end
